theory Spec2Isabelle
  imports Main
begin

section \<open>Python values and exceptions\<close>

text \<open>
  The values that flow through \<^verbatim>\<open>ghost_api.py\<close>: what \<^verbatim>\<open>request.get_json()\<close> can
  hand to a view (\<^verbatim>\<open>None\<close>, booleans, integers, strings, lists, dictionaries) and what
  the views put into the dictionaries they pass to \<^verbatim>\<open>jsonify\<close> (the same, and
  \<^verbatim>\<open>datetime\<close> objects, which sit inside \<^verbatim>\<open>api_stats\<close>). A dictionary is the list of
  its items in insertion order; a \<^verbatim>\<open>datetime\<close> and a \<^verbatim>\<open>timedelta\<close> are a count of
  microseconds. JSON numbers with a fraction are left out: no view computes with them.
\<close>

datatype pyval =
    PNone
  | PBool bool
  | PInt int
  | PStr string
  | PList "pyval list"
  | PDict "(string \<times> pyval) list"
  | PDateTime int

text \<open>Python's truth test, as \<^verbatim>\<open>if not data\<close> and \<^verbatim>\<open>if not team_code\<close> apply it.\<close>

fun truthy :: "pyval \<Rightarrow> bool" where
  "truthy PNone = False"
| "truthy (PBool b) = b"
| "truthy (PInt n) = (n \<noteq> 0)"
| "truthy (PStr s) = (s \<noteq> [])"
| "truthy (PList xs) = (xs \<noteq> [])"
| "truthy (PDict kvs) = (kvs \<noteq> [])"
| "truthy (PDateTime t) = True"

fun type_name :: "pyval \<Rightarrow> string" where
  "type_name PNone = ''NoneType''"
| "type_name (PBool b) = ''bool''"
| "type_name (PInt n) = ''int''"
| "type_name (PStr s) = ''str''"
| "type_name (PList xs) = ''list''"
| "type_name (PDict kvs) = ''dict''"
| "type_name (PDateTime t) = ''datetime.datetime''"

text \<open>
  Every exception the views can meet is caught by \<^verbatim>\<open>except Exception as e\<close> and only
  \<^verbatim>\<open>str(e)\<close> is used, so an exception is its message. A call that may raise returns
  \<open>Inl\<close> the exception or \<open>Inr\<close> its value.
\<close>

datatype exn = Exception (str: string)

type_synonym 'a outcome = "exn + 'a"

abbreviation Raises :: "exn \<Rightarrow> 'a outcome" where
  "Raises e \<equiv> Inl e"

abbreviation Returns :: "'a \<Rightarrow> 'a outcome" where
  "Returns v \<equiv> Inr v"

definition attribute_error :: "pyval \<Rightarrow> string \<Rightarrow> exn" where
  "attribute_error v attr =
     Exception ([CHR 0x27] @ type_name v @ [CHR 0x27] @ '' object has no attribute ''
                @ [CHR 0x27] @ attr @ [CHR 0x27])"

text \<open>
  \<^verbatim>\<open>data.get(key, default)\<close>: a dictionary answers with the stored value or the default;
  any other value has no attribute \<^verbatim>\<open>get\<close> and the access raises AttributeError.
\<close>

definition get :: "pyval \<Rightarrow> string \<Rightarrow> pyval \<Rightarrow> pyval outcome" where
  "get data key dflt =
     (case data of
        PDict kvs \<Rightarrow> Returns (case map_of kvs key of None \<Rightarrow> dflt | Some v \<Rightarrow> v)
      | _ \<Rightarrow> Raises (attribute_error data ''get''))"

section \<open>Configuration, collaborators and state\<close>

text \<open>
  \<^verbatim>\<open>config.Config\<close> is not part of this module; the three attributes the views read
  are parameters.
\<close>

record config =
  MAIN_ACCOUNT_ID :: pyval
  START_TIME :: int
  API_DURATION :: int

text \<open>The attributes of the \<^verbatim>\<open>GhostAccount\<close> object that \<^verbatim>\<open>account_status\<close> and
  \<^verbatim>\<open>system_health\<close> read.\<close>

record ghost_account =
  account_id :: pyval
  is_connected :: bool
  last_activity :: int
  connection_attempts :: int

text \<open>
  What one request observes of the code outside this module: the results of
  \<^verbatim>\<open>APIValidator.check_api_status()\<close>, \<^verbatim>\<open>APIValidator.validate_team_code(code)\<close>,
  \<^verbatim>\<open>account_pool.send_single_ghost_attack(team_code, ghost_name)\<close> and
  \<^verbatim>\<open>account_pool.get_main_account()\<close>, each of which may raise; the clock
  \<^verbatim>\<open>datetime.now()\<close>; and the standard library's \<^verbatim>\<open>datetime.isoformat\<close> and
  \<^verbatim>\<open>str\<close> of a \<^verbatim>\<open>timedelta\<close>, whose text is not modelled.
\<close>

record world =
  check_api_status :: "bool outcome"
  validate_team_code :: "pyval \<Rightarrow> bool outcome"
  send_single_ghost_attack :: "pyval \<Rightarrow> pyval \<Rightarrow> (bool \<times> string) outcome"
  get_main_account :: "ghost_account option outcome"
  now :: int
  isoformat :: "int \<Rightarrow> string"
  str_timedelta :: "int \<Rightarrow> string"

text \<open>The module-level dictionary \<^verbatim>\<open>api_stats\<close>.\<close>

record stats =
  start_time :: int
  total_requests :: int
  successful_ghost_attacks :: int
  failed_attacks :: int
  main_account :: pyval

text \<open>
  The state a request can change: \<^verbatim>\<open>api_stats\<close>, the messages given to
  \<^verbatim>\<open>logger.error\<close>, and the argument pairs with which
  \<^verbatim>\<open>send_single_ghost_attack\<close> has been called.
\<close>

record app_state =
  api_stats :: stats
  error_log :: "string list"
  dispatch_calls :: "(pyval \<times> pyval) list"

definition initial_state :: "config \<Rightarrow> int \<Rightarrow> app_state" where
  "initial_state cfg t0 =
     \<lparr> api_stats = \<lparr> start_time = t0, total_requests = 0, successful_ghost_attacks = 0,
                     failed_attacks = 0, main_account = MAIN_ACCOUNT_ID cfg \<rparr>,
       error_log = [], dispatch_calls = [] \<rparr>"

definition stats_value :: "stats \<Rightarrow> pyval" where
  "stats_value s =
     PDict [(''start_time'', PDateTime (start_time s)),
            (''total_requests'', PInt (total_requests s)),
            (''successful_ghost_attacks'', PInt (successful_ghost_attacks s)),
            (''failed_attacks'', PInt (failed_attacks s)),
            (''main_account'', main_account s)]"

text \<open>
  What a request ends in: a response with its HTTP status and the dictionary given to
  \<^verbatim>\<open>jsonify\<close>, or an exception that left this module's code (Flask then answers by
  itself).
\<close>

datatype response =
    Response (status_code: nat) (body: pyval)
  | Propagated exn

datatype endpoint = Home | GhostAttack | AccountStatus | SystemHealth | TestGhost | NoRoute nat

text \<open>A request: the route it matched (\<open>NoRoute c\<close> when Flask's routing failed with
  status \<open>c\<close>) and the result of \<^verbatim>\<open>request.get_json()\<close>.\<close>

record request =
  endpoint :: endpoint
  get_json :: "pyval outcome"

definition error_body :: "string \<Rightarrow> pyval" where
  "error_body msg = PDict [(''status'', PStr ''error''), (''message'', PStr msg)]"

section \<open>The request hook and the views\<close>

definition before_request :: "world \<Rightarrow> app_state \<Rightarrow> response option \<times> app_state" where
  "before_request w st =
     (let st1 = st\<lparr>api_stats := (api_stats st)\<lparr>total_requests := total_requests (api_stats st) + 1\<rparr>\<rparr>
      in case check_api_status w of
           Raises e \<Rightarrow> (Some (Propagated e), st1)
         | Returns ok \<Rightarrow>
             if \<not> ok
             then (Some (Response 403
                      (error_body ''API has expired. Please contact administrator.'')), st1)
             else (None, st1))"

text \<open>The \<^verbatim>\<open>try\<close> block of \<^verbatim>\<open>ghost_attack\<close>: it returns a response or raises.\<close>

definition ghost_attack_try ::
  "config \<Rightarrow> world \<Rightarrow> request \<Rightarrow> app_state \<Rightarrow> response outcome \<times> app_state" where
  "ghost_attack_try cfg w rq st =
     (case get_json rq of
        Raises e \<Rightarrow> (Raises e, st)
      | Returns data \<Rightarrow>
          if \<not> truthy data
          then (Returns (Response 400 (error_body ''No JSON data provided'')), st)
          else
            (case get data ''team_code'' PNone of
               Raises e \<Rightarrow> (Raises e, st)
             | Returns team_code \<Rightarrow>
                 (case get data ''ghost_name'' (PStr ''DRAGON Ghost'') of
                    Raises e \<Rightarrow> (Raises e, st)
                  | Returns ghost_name \<Rightarrow>
                      if \<not> truthy team_code
                      then (Returns (Response 400 (error_body ''Team code is required'')), st)
                      else
                        (case validate_team_code w team_code of
                           Raises e \<Rightarrow> (Raises e, st)
                         | Returns valid \<Rightarrow>
                             if \<not> valid
                             then (Returns (Response 400
                                      (error_body ''Invalid team code format'')), st)
                             else
                               (let st1 = st\<lparr>dispatch_calls :=
                                              dispatch_calls st @ [(team_code, ghost_name)]\<rparr>
                                in case send_single_ghost_attack w team_code ghost_name of
                                     Raises e \<Rightarrow> (Raises e, st1)
                                   | Returns (success, message) \<Rightarrow>
                                       if success
                                       then
                                         (Returns (Response 200
                                            (PDict [(''status'', PStr ''success''),
                                                    (''message'', PStr message),
                                                    (''team_code'', team_code),
                                                    (''ghost_name'', ghost_name),
                                                    (''account_used'', MAIN_ACCOUNT_ID cfg),
                                                    (''timestamp'', PStr (isoformat w (now w)))])),
                                          st1\<lparr>api_stats := (api_stats st1)
                                             \<lparr>successful_ghost_attacks :=
                                                successful_ghost_attacks (api_stats st1) + 1\<rparr>\<rparr>)
                                       else
                                         (Returns (Response 500 (error_body message)),
                                          st1\<lparr>api_stats := (api_stats st1)
                                             \<lparr>failed_attacks :=
                                                failed_attacks (api_stats st1) + 1\<rparr>\<rparr>))))))"

text \<open>The whole view: the \<^verbatim>\<open>except Exception\<close> clause logs, counts a failed attack and
  answers 500.\<close>

definition ghost_attack ::
  "config \<Rightarrow> world \<Rightarrow> request \<Rightarrow> app_state \<Rightarrow> response \<times> app_state" where
  "ghost_attack cfg w rq st =
     (case ghost_attack_try cfg w rq st of
        (Returns r, st1) \<Rightarrow> (r, st1)
      | (Raises e, st1) \<Rightarrow>
          (Response 500 (error_body (''Internal server error: '' @ str e)),
           st1\<lparr>error_log := error_log st1 @ [''Ghost attack error: '' @ str e],
               api_stats := (api_stats st1)
                  \<lparr>failed_attacks := failed_attacks (api_stats st1) + 1\<rparr>\<rparr>))"

text \<open>\<^verbatim>\<open>account_status\<close>: the \<^verbatim>\<open>try\<close> block, then the view with its \<^verbatim>\<open>except\<close> clause.\<close>

definition account_status_try :: "world \<Rightarrow> response outcome" where
  "account_status_try w =
     (case get_main_account w of
        Raises e \<Rightarrow> Raises e
      | Returns None \<Rightarrow>
          Returns (Response 200 (error_body ''Main account not available''))
      | Returns (Some account) \<Rightarrow>
          Returns (Response 200
            (PDict [(''status'', PStr ''success''),
                    (''account_id'', account_id account),
                    (''connected'', PBool (is_connected account)),
                    (''last_activity'', PStr (isoformat w (last_activity account))),
                    (''connection_attempts'', PInt (connection_attempts account))])))"

definition account_status :: "world \<Rightarrow> app_state \<Rightarrow> response \<times> app_state" where
  "account_status w st =
     (case account_status_try w of
        Returns r \<Rightarrow> (r, st)
      | Raises e \<Rightarrow>
          (Response 500 (error_body (''Error getting account status: '' @ str e)),
           st\<lparr>error_log := error_log st @ [''Account status error: '' @ str e]\<rparr>))"

text \<open>
  \<^verbatim>\<open>timedelta.days\<close>: a \<^verbatim>\<open>timedelta\<close> is kept normalised with its seconds and
  microseconds non-negative, so its \<^verbatim>\<open>days\<close> is the floor of the duration in days.
\<close>

definition microseconds_per_day :: int where
  "microseconds_per_day = 86400000000"

definition days :: "int \<Rightarrow> int" where
  "days td = td div microseconds_per_day"

text \<open>
  A \<^verbatim>\<open>timedelta\<close> holds between \<^verbatim>\<open>timedelta.min\<close> (-999999999 days) and
  \<^verbatim>\<open>timedelta.max\<close> (999999999 days, 23:59:59.999999): its \<^verbatim>\<open>days\<close> has magnitude at
  most 999999999.
\<close>

definition MAX_DELTA_DAYS :: int where
  "MAX_DELTA_DAYS = 999999999"

definition valid_timedelta :: "int \<Rightarrow> bool" where
  "valid_timedelta td \<longleftrightarrow> - MAX_DELTA_DAYS \<le> days td \<and> days td \<le> MAX_DELTA_DAYS"

text \<open>The decimal text of an integer, as \<^verbatim>\<open>%d\<close> prints it.\<close>

function decimal_nat :: "nat \<Rightarrow> string" where
  "decimal_nat n =
     (if n < 10 then [''0123456789'' ! n]
      else decimal_nat (n div 10) @ [''0123456789'' ! (n mod 10)])"
  by pat_completeness auto
termination
  by (relation "measure (\<lambda>n. n)") auto

declare decimal_nat.simps [simp del]

definition decimal :: "int \<Rightarrow> string" where
  "decimal i = (if i < 0 then ''-'' @ decimal_nat (nat (- i)) else decimal_nat (nat i))"

text \<open>
  \<^verbatim>\<open>timedelta - timedelta\<close>: the difference is normalised and its days are checked; out
  of range, CPython raises \<^verbatim>\<open>OverflowError("days=%d; must have magnitude <= 999999999")\<close>.
  (The difference of two \<^verbatim>\<open>datetime\<close>s, which lie between the years 1 and 9999, is
  always in range and is written as a plain subtraction. \<^verbatim>\<open>Config.START_TIME\<close> is taken
  to be a naive \<^verbatim>\<open>datetime\<close>, as \<^verbatim>\<open>datetime.now()\<close> is.)
\<close>

definition timedelta_sub :: "int \<Rightarrow> int \<Rightarrow> int outcome" where
  "timedelta_sub a b =
     (let d = days (a - b)
      in if - MAX_DELTA_DAYS \<le> d \<and> d \<le> MAX_DELTA_DAYS then Returns (a - b)
         else Raises (Exception (''days='' @ decimal d @ ''; must have magnitude <= ''
                                  @ decimal MAX_DELTA_DAYS)))"

definition system_health_try :: "config \<Rightarrow> world \<Rightarrow> app_state \<Rightarrow> response outcome" where
  "system_health_try cfg w st =
     (let elapsed = now w - START_TIME cfg
      in case timedelta_sub (API_DURATION cfg) elapsed of
           Raises e \<Rightarrow> Raises e
         | Returns remaining \<Rightarrow>
             (let days_remaining = days remaining
              in case get_main_account w of
                   Raises e \<Rightarrow> Raises e
                 | Returns account \<Rightarrow>
                     (let account_status =
                            (if (case account of None \<Rightarrow> False | Some a \<Rightarrow> is_connected a)
                             then ''Connected'' else ''Disconnected'')
                      in Returns (Response 200
                           (PDict [(''status'', PStr ''success''),
                                   (''api_running'', PBool True),
                                   (''api_name'', PStr ''DRAGON Single Ghost API''),
                                   (''mode'', PStr ''Single Account''),
                                   (''main_account'', MAIN_ACCOUNT_ID cfg),
                                   (''account_status'', PStr account_status),
                                   (''start_time'', PStr (isoformat w (START_TIME cfg))),
                                   (''days_remaining'', PInt (max 0 days_remaining)),
                                   (''statistics'', stats_value (api_stats st))])))))"

definition system_health :: "config \<Rightarrow> world \<Rightarrow> app_state \<Rightarrow> response \<times> app_state" where
  "system_health cfg w st =
     (case system_health_try cfg w st of
        Returns r \<Rightarrow> (r, st)
      | Raises e \<Rightarrow>
          (Response 500 (error_body (''Health check failed: '' @ str e)),
           st\<lparr>error_log := error_log st @ [''Health check error: '' @ str e]\<rparr>))"

text \<open>\<^verbatim>\<open>test_ghost\<close>: the \<^verbatim>\<open>try\<close> block, then the view. Its \<^verbatim>\<open>except\<close> clause neither
  logs nor counts.\<close>

definition test_ghost_try ::
  "config \<Rightarrow> world \<Rightarrow> request \<Rightarrow> app_state \<Rightarrow> response outcome \<times> app_state" where
  "test_ghost_try cfg w rq st =
     (case get_json rq of
        Raises e \<Rightarrow> (Raises e, st)
      | Returns data \<Rightarrow>
          (case get data ''team_code'' (PStr ''12345678'') of
             Raises e \<Rightarrow> (Raises e, st)
           | Returns team_code \<Rightarrow>
               (case get data ''ghost_name'' (PStr ''TEST GHOST'') of
                  Raises e \<Rightarrow> (Raises e, st)
                | Returns ghost_name \<Rightarrow>
                    (let st1 = st\<lparr>dispatch_calls :=
                                   dispatch_calls st @ [(team_code, ghost_name)]\<rparr>
                     in case send_single_ghost_attack w team_code ghost_name of
                          Raises e \<Rightarrow> (Raises e, st1)
                        | Returns (success, message) \<Rightarrow>
                            (Returns (Response 200
                               (PDict [(''status'',
                                          PStr (if success then ''success'' else ''error'')),
                                       (''message'', PStr message),
                                       (''test_data'',
                                          PDict [(''team_code'', team_code),
                                                 (''ghost_name'', ghost_name),
                                                 (''account_used'', MAIN_ACCOUNT_ID cfg)])])),
                             st1)))))"

definition test_ghost ::
  "config \<Rightarrow> world \<Rightarrow> request \<Rightarrow> app_state \<Rightarrow> response \<times> app_state" where
  "test_ghost cfg w rq st =
     (case test_ghost_try cfg w rq st of
        (Returns r, st1) \<Rightarrow> (r, st1)
      | (Raises e, st1) \<Rightarrow>
          (Response 500 (error_body (''Test failed: '' @ str e)), st1))"

definition home :: "config \<Rightarrow> world \<Rightarrow> app_state \<Rightarrow> response \<times> app_state" where
  "home cfg w st =
     (Response 200
        (PDict [(''status'', PStr ''success''),
                (''message'', PStr ([CHR 0xF0, CHR 0x9F, CHR 0x9A, CHR 0x80]
                                     @ '' DRAGON Single Ghost API is running'')),
                (''version'', PStr ''2.0''),
                (''author'', PStr ''DRAGON''),
                (''mode'', PStr ''Single Account Mode''),
                (''main_account'', MAIN_ACCOUNT_ID cfg),
                (''uptime'', PStr (str_timedelta w (now w - start_time (api_stats st)))),
                (''stats'', stats_value (api_stats st))]),
      st)"

section \<open>A request from arrival to response\<close>

text \<open>
  Flask runs the \<^verbatim>\<open>before_request\<close> hook first; when the hook returns a response the
  view is skipped; otherwise the matched view runs, or the routing error is answered with
  its own status (the error page's body is not modelled).
\<close>

definition dispatch_request ::
  "config \<Rightarrow> world \<Rightarrow> request \<Rightarrow> app_state \<Rightarrow> response \<times> app_state" where
  "dispatch_request cfg w rq st =
     (case endpoint rq of
        Home \<Rightarrow> home cfg w st
      | GhostAttack \<Rightarrow> ghost_attack cfg w rq st
      | AccountStatus \<Rightarrow> account_status w st
      | SystemHealth \<Rightarrow> system_health cfg w st
      | TestGhost \<Rightarrow> test_ghost cfg w rq st
      | NoRoute c \<Rightarrow> (Response c PNone, st))"

definition handle_request ::
  "config \<Rightarrow> world \<Rightarrow> request \<Rightarrow> app_state \<Rightarrow> response \<times> app_state" where
  "handle_request cfg w rq st =
     (case before_request w st of
        (Some r, st1) \<Rightarrow> (r, st1)
      | (None, st1) \<Rightarrow> dispatch_request cfg w rq st1)"

text \<open>A sequence of requests, each with the world it meets, served one after the other.\<close>

fun serve :: "config \<Rightarrow> (world \<times> request) list \<Rightarrow> app_state \<Rightarrow> app_state" where
  "serve cfg [] st = st"
| "serve cfg ((w, rq) # rest) st = serve cfg rest (snd (handle_request cfg w rq st))"

section \<open>Reading states and responses\<close>

text \<open>The only change \<^verbatim>\<open>before_request\<close> makes: \<^verbatim>\<open>api_stats['total_requests'] += 1\<close>.\<close>

definition count_request :: "app_state \<Rightarrow> app_state" where
  "count_request st =
     st\<lparr>api_stats := (api_stats st)\<lparr>total_requests := total_requests (api_stats st) + 1\<rparr>\<rparr>"

definition http_status :: "response \<Rightarrow> nat option" where
  "http_status r = (case r of Response c b \<Rightarrow> Some c | Propagated e \<Rightarrow> None)"

definition body_field :: "response \<Rightarrow> string \<Rightarrow> pyval option" where
  "body_field r k = (case r of Response c (PDict kvs) \<Rightarrow> map_of kvs k | _ \<Rightarrow> None)"

definition response_keys :: "response \<Rightarrow> string list" where
  "response_keys r = (case r of Response c (PDict kvs) \<Rightarrow> map fst kvs | _ \<Rightarrow> [])"

text \<open>Two responses have the same shape when they carry the same HTTP status and their
  bodies have the same keys.\<close>

definition same_shape :: "response \<Rightarrow> response \<Rightarrow> bool" where
  "same_shape r1 r2 \<longleftrightarrow>
     http_status r1 = http_status r2 \<and> set (response_keys r1) = set (response_keys r2)"

text \<open>The counters never exceed the requests seen.\<close>

definition counters_bounded :: "app_state \<Rightarrow> bool" where
  "counters_bounded st \<longleftrightarrow>
     successful_ghost_attacks (api_stats st) + failed_attacks (api_stats st)
       \<le> total_requests (api_stats st)"

text \<open>
  The specification's reading of \<^verbatim>\<open>days_remaining\<close>: the validity window ends at
  \<^verbatim>\<open>START_TIME + API_DURATION\<close>; what is left of it at time \<open>t\<close>, in whole days, and
  nothing once the window is over.
\<close>

definition whole_days_left :: "config \<Rightarrow> int \<Rightarrow> int" where
  "whole_days_left cfg t =
     (let expiry = START_TIME cfg + API_DURATION cfg
      in if expiry \<le> t then 0 else (expiry - t) div microseconds_per_day)"

section \<open>Sample configuration, worlds and requests\<close>

definition sample_config :: config where
  "sample_config = \<lparr> MAIN_ACCOUNT_ID = PStr ''4100000001'', START_TIME = 0,
                      API_DURATION = 30 * microseconds_per_day \<rparr>"

text \<open>A configuration whose validity window is \<^verbatim>\<open>timedelta.max\<close> and starts one day
  after the clock of the sample world.\<close>

definition overflow_config :: config where
  "overflow_config = \<lparr> MAIN_ACCOUNT_ID = PStr ''4100000001'',
                        START_TIME = 4 * microseconds_per_day + 1,
                        API_DURATION = 1000000000 * microseconds_per_day - 1 \<rparr>"

definition sample_account :: ghost_account where
  "sample_account = \<lparr> account_id = PStr ''4100000001'', is_connected = True,
                       last_activity = 5, connection_attempts = 0 \<rparr>"

text \<open>A world in which the API is valid, eight-character codes are accepted, the account is
  connected and the attack is sent.\<close>

definition sample_world :: world where
  "sample_world =
     \<lparr> check_api_status = Returns True,
       validate_team_code = (\<lambda>c. Returns (case c of PStr s \<Rightarrow> length s = 8 | _ \<Rightarrow> False)),
       send_single_ghost_attack = (\<lambda>c n. Returns (True, ''Ghost sent'')),
       get_main_account = Returns (Some sample_account),
       now = 3 * microseconds_per_day + 1,
       isoformat = (\<lambda>t. ''1970-01-04T00:00:00.000001''),
       str_timedelta = (\<lambda>d. ''3 days, 0:00:00.000001'') \<rparr>"

text \<open>The same world with the account disconnected: the attack reports failure.\<close>

definition failing_world :: world where
  "failing_world =
     sample_world\<lparr> send_single_ghost_attack := (\<lambda>c n. Returns (False, ''Account not connected'')),
                   get_main_account :=
                     Returns (Some (sample_account\<lparr>is_connected := False\<rparr>)) \<rparr>"

text \<open>The same world after the validity window: the gate is closed.\<close>

definition expired_world :: world where
  "expired_world = sample_world\<lparr> check_api_status := Returns False \<rparr>"

definition post :: "endpoint \<Rightarrow> pyval \<Rightarrow> request" where
  "post ep data = \<lparr> endpoint = ep, get_json = Returns data \<rparr>"

section \<open>The dispatch lock\<close>

text \<open>
  Modelled from the spec: \<^verbatim>\<open>SingleAccountPool.send_single_ghost_attack\<close> lives in
  \<^verbatim>\<open>account_handler.py\<close>, which is not part of the sources at hand; only its call in
  \<^verbatim>\<open>ghost_attack\<close> and \<^verbatim>\<open>test_ghost\<close> is. The specification says of it: it acquires an
  exclusive lock scoped to the account session, calls \<^verbatim>\<open>SendAction\<close>, and releases the
  lock on every exit path (success, failure, or unexpected error); requests arriving
  while the lock is held block until their turn, first come first served, and none is
  discarded.

  Concurrent callers are interleaved one atomic step at a time. A caller enters the call
  and joins the end of the waiting line (\<open>Call\<close>); when the lock is free the caller at
  the head of the line takes it and its \<^verbatim>\<open>SendAction\<close> starts (\<open>Acquire\<close>); a running
  \<^verbatim>\<open>SendAction\<close> ends on one of the three exit paths and its caller releases the lock
  (\<open>Return\<close>). \<open>arrived\<close> and \<open>started\<close> record the order of the calls and of the
  \<^verbatim>\<open>SendAction\<close> invocations.
\<close>

text \<open>Modelled from the spec: the exit paths of \<^verbatim>\<open>SendAction\<close> (``success, failure, or
  unexpected error'').\<close>

type_synonym caller = nat

datatype exit_path = Success | Failure | UnexpectedError

text \<open>Modelled from the spec: the exclusive lock of the Dispatch Coordinator, its line of
  blocked callers, and the \<^verbatim>\<open>SendAction\<close> calls that are running. The statistics
  counters are kept by the views above, not here.\<close>

record coordinator =
  locked :: bool
  waiting :: "caller list"
  in_flight :: "caller list"
  returned :: "(caller \<times> exit_path) list"
  arrived :: "caller list"
  started :: "caller list"

datatype event = Call caller | Acquire | Return caller exit_path

definition idle :: coordinator where
  "idle = \<lparr> locked = False, waiting = [], in_flight = [], returned = [],
             arrived = [], started = [] \<rparr>"

text \<open>Modelled from the spec: one atomic step of \<^verbatim>\<open>SendSingleGhostAttack\<close>; \<open>None\<close> when
  the event cannot happen in this state (a caller calls once; the lock is taken only
  when free, by the head of the line; only a running call returns).\<close>

fun step :: "event \<Rightarrow> coordinator \<Rightarrow> coordinator option" where
  "step (Call t) s =
     (if t \<in> set (arrived s) then None
      else Some (s\<lparr>waiting := waiting s @ [t], arrived := arrived s @ [t]\<rparr>))"
| "step Acquire s =
     (if locked s then None
      else case waiting s of
             [] \<Rightarrow> None
           | t # rest \<Rightarrow>
               Some (s\<lparr>locked := True, waiting := rest, in_flight := t # in_flight s,
                       started := started s @ [t]\<rparr>))"
| "step (Return t x) s =
     (if t \<in> set (in_flight s)
      then Some (s\<lparr>locked := False, in_flight := removeAll t (in_flight s),
                   returned := returned s @ [(t, x)]\<rparr>)
      else None)"

text \<open>A schedule is a list of events; it runs as long as each event is enabled.\<close>

fun run :: "event list \<Rightarrow> coordinator \<Rightarrow> coordinator option" where
  "run [] s = Some s"
| "run (e # es) s = (case step e s of None \<Rightarrow> None | Some s' \<Rightarrow> run es s')"

definition lock_invariant :: "coordinator \<Rightarrow> bool" where
  "lock_invariant s \<longleftrightarrow>
     (locked s \<longleftrightarrow> in_flight s \<noteq> [])
     \<and> length (in_flight s) \<le> 1
     \<and> arrived s = started s @ waiting s
     \<and> started s = map fst (returned s) @ in_flight s
     \<and> distinct (arrived s)"

section \<open>Basic facts\<close>

lemma before_request_open:
  "check_api_status w = Returns True \<Longrightarrow> before_request w st = (None, count_request st)"
  by (simp add: before_request_def count_request_def)

lemma handle_request_open:
  "check_api_status w = Returns True \<Longrightarrow>
   handle_request cfg w rq st = dispatch_request cfg w rq (count_request st)"
  by (simp add: handle_request_def before_request_open)

lemma count_request_simps:
  "total_requests (api_stats (count_request st)) = total_requests (api_stats st) + 1"
  "successful_ghost_attacks (api_stats (count_request st)) = successful_ghost_attacks (api_stats st)"
  "failed_attacks (api_stats (count_request st)) = failed_attacks (api_stats st)"
  "error_log (count_request st) = error_log st"
  "dispatch_calls (count_request st) = dispatch_calls st"
  by (simp_all add: count_request_def)

lemma sample_world_simps:
  "check_api_status sample_world = Returns True"
  "validate_team_code sample_world (PStr ''12345678'') = Returns True"
  "send_single_ghost_attack sample_world c n = Returns (True, ''Ghost sent'')"
  "get_main_account sample_world = Returns (Some sample_account)"
  by (simp_all add: sample_world_def)

lemma failing_world_simps:
  "check_api_status failing_world = Returns True"
  "validate_team_code failing_world (PStr ''12345678'') = Returns True"
  "send_single_ghost_attack failing_world c n = Returns (False, ''Account not connected'')"
  by (simp_all add: failing_world_def sample_world_def)

lemma post_simps: "endpoint (post ep d) = ep" "get_json (post ep d) = Returns d"
  by (simp_all add: post_def)

section \<open>The attack endpoint\<close>

text \<open>
  A POST to the attack endpoint that passes the gate and whose body is empty or
  \<^verbatim>\<open>null\<close>, or is an object in which \<^verbatim>\<open>team_code\<close> is absent or \<^verbatim>\<open>null\<close>, is answered
  with HTTP 400 and an error body by the checks at the head of the view; the request is
  counted in \<^verbatim>\<open>total_requests\<close>, and neither the successful nor the failed attack
  counter changes.
\<close>

lemma missing_team_code_is_validation_failure:
  assumes "check_api_status w = Returns True"
    and "endpoint rq = GhostAttack"
    and "get_json rq = Returns data"
    and "\<not> truthy data \<or> get data ''team_code'' PNone = Returns PNone"
  shows "fst (handle_request cfg w rq st) =
           Response 400 (error_body (if \<not> truthy data then ''No JSON data provided''
                                     else ''Team code is required''))
       \<and> total_requests (api_stats (snd (handle_request cfg w rq st)))
           = total_requests (api_stats st) + 1
       \<and> successful_ghost_attacks (api_stats (snd (handle_request cfg w rq st)))
           = successful_ghost_attacks (api_stats st)
       \<and> failed_attacks (api_stats (snd (handle_request cfg w rq st)))
           = failed_attacks (api_stats st)"
proof (cases "truthy data")
  case False
  with assms(1-3) show ?thesis
    by (simp add: handle_request_open dispatch_request_def ghost_attack_def
        ghost_attack_try_def count_request_simps)
next
  case True
  with assms(4) have none: "get data ''team_code'' PNone = Returns PNone" by simp
  then obtain kvs where d: "data = PDict kvs"
    by (cases data) (simp_all add: get_def)
  from True none assms(1-3) show ?thesis
    by (simp add: handle_request_open dispatch_request_def ghost_attack_def
        ghost_attack_try_def count_request_simps d get_def)
qed

lemma missing_team_code_example:
  "fst (handle_request sample_config sample_world
          (post GhostAttack (PDict [(''ghost_name'', PStr ''Casper'')]))
          (initial_state sample_config 0))
     = Response 400 (error_body ''Team code is required'')
   \<and> total_requests (api_stats (snd (handle_request sample_config sample_world
          (post GhostAttack (PDict [(''ghost_name'', PStr ''Casper'')]))
          (initial_state sample_config 0)))) = 1
   \<and> successful_ghost_attacks (api_stats (snd (handle_request sample_config sample_world
          (post GhostAttack (PDict [(''ghost_name'', PStr ''Casper'')]))
          (initial_state sample_config 0)))) = 0
   \<and> failed_attacks (api_stats (snd (handle_request sample_config sample_world
          (post GhostAttack (PDict [(''ghost_name'', PStr ''Casper'')]))
          (initial_state sample_config 0)))) = 0"
  using missing_team_code_is_validation_failure
          [of sample_world "post GhostAttack (PDict [(''ghost_name'', PStr ''Casper'')])"
              "PDict [(''ghost_name'', PStr ''Casper'')]" sample_config
              "initial_state sample_config 0"]
  by (simp add: sample_world_simps post_simps initial_state_def get_def)

text \<open>
  Claim C4 says that every POST to the attack endpoint whose JSON body lacks a team code
  is answered with HTTP 400, counted in \<^verbatim>\<open>total_requests\<close>, and leaves both attack
  counters alone. The view misses the bodies that are a non-empty JSON value other than
  an object: for the body \<^verbatim>\<open>[1]\<close> the test \<^verbatim>\<open>if not data\<close> lets it through,
  \<^verbatim>\<open>data.get\<close> raises AttributeError, and the \<^verbatim>\<open>except\<close> clause answers HTTP 500 and
  counts a failed attack.
\<close>

theorem non_object_body_counted_as_failed_attack:
  "fst (handle_request sample_config sample_world (post GhostAttack (PList [PInt 1]))
          (initial_state sample_config 0))
     = Response 500 (error_body (''Internal server error: '' @
          [CHR 0x27] @ ''list'' @ [CHR 0x27] @ '' object has no attribute '' @
          [CHR 0x27] @ ''get'' @ [CHR 0x27]))
   \<and> total_requests (api_stats (snd (handle_request sample_config sample_world
          (post GhostAttack (PList [PInt 1])) (initial_state sample_config 0)))) = 1
   \<and> successful_ghost_attacks (api_stats (snd (handle_request sample_config sample_world
          (post GhostAttack (PList [PInt 1])) (initial_state sample_config 0)))) = 0
   \<and> failed_attacks (api_stats (snd (handle_request sample_config sample_world
          (post GhostAttack (PList [PInt 1])) (initial_state sample_config 0)))) = 1"
  by (simp add: handle_request_open sample_world_simps post_simps dispatch_request_def
      ghost_attack_def ghost_attack_try_def get_def attribute_error_def count_request_simps
      initial_state_def)

lemma non_object_body_is_not_a_validation_failure:
  assumes "check_api_status w = Returns True"
    and "endpoint rq = GhostAttack"
    and "get_json rq = Returns data"
    and "truthy data"
    and "\<forall>kvs. data \<noteq> PDict kvs"
  shows "fst (handle_request cfg w rq st)
           = Response 500 (error_body (''Internal server error: ''
                                        @ str (attribute_error data ''get'')))
       \<and> failed_attacks (api_stats (snd (handle_request cfg w rq st)))
           = failed_attacks (api_stats st) + 1"
proof -
  from assms(5) have g: "get data ''team_code'' PNone = Raises (attribute_error data ''get'')"
    by (cases data) (simp_all add: get_def)
  from assms(1-4) g show ?thesis
    by (simp add: handle_request_open dispatch_request_def ghost_attack_def
        ghost_attack_try_def count_request_simps)
qed

text \<open>
  Claim C5. A POST to the attack endpoint with \<^verbatim>\<open>team_code\<close> \<^verbatim>\<open>"12345678"\<close> and no
  \<^verbatim>\<open>ghost_name\<close>, once the gate and the format check have let it through, calls
  \<^verbatim>\<open>send_single_ghost_attack\<close> with the default label \<^verbatim>\<open>"DRAGON Ghost"\<close>; when the
  attack succeeds the response's \<^verbatim>\<open>account_used\<close> is \<^verbatim>\<open>Config.MAIN_ACCOUNT_ID\<close>.
\<close>

theorem default_label_dispatched:
  assumes "check_api_status w = Returns True"
    and "endpoint rq = GhostAttack"
    and "get_json rq = Returns (PDict kvs)"
    and "map_of kvs ''team_code'' = Some (PStr ''12345678'')"
    and "map_of kvs ''ghost_name'' = None"
    and "validate_team_code w (PStr ''12345678'') = Returns True"
  shows "dispatch_calls (snd (handle_request cfg w rq st))
           = dispatch_calls st @ [(PStr ''12345678'', PStr ''DRAGON Ghost'')]
       \<and> (send_single_ghost_attack w (PStr ''12345678'') (PStr ''DRAGON Ghost'')
             = Returns (True, msg)
           \<longrightarrow> http_status (fst (handle_request cfg w rq st)) = Some 200
             \<and> body_field (fst (handle_request cfg w rq st)) ''account_used''
                 = Some (MAIN_ACCOUNT_ID cfg))"
proof -
  from assms(4) have ne: "kvs \<noteq> []" by auto
  show ?thesis
    using assms ne
    by (auto simp add: handle_request_open dispatch_request_def ghost_attack_def
        ghost_attack_try_def get_def count_request_simps body_field_def http_status_def Let_def
        split: sum.splits prod.splits)
qed

theorem default_label_witness:
  "dispatch_calls (snd (handle_request sample_config sample_world
          (post GhostAttack (PDict [(''team_code'', PStr ''12345678'')]))
          (initial_state sample_config 0)))
     = [(PStr ''12345678'', PStr ''DRAGON Ghost'')]
   \<and> http_status (fst (handle_request sample_config sample_world
          (post GhostAttack (PDict [(''team_code'', PStr ''12345678'')]))
          (initial_state sample_config 0))) = Some 200
   \<and> body_field (fst (handle_request sample_config sample_world
          (post GhostAttack (PDict [(''team_code'', PStr ''12345678'')]))
          (initial_state sample_config 0))) ''account_used'' = Some (PStr ''4100000001'')"
  using default_label_dispatched
          [of sample_world "post GhostAttack (PDict [(''team_code'', PStr ''12345678'')])"
              "[(''team_code'', PStr ''12345678'')]" sample_config
              "initial_state sample_config 0" "''Ghost sent''"]
  by (simp add: sample_world_simps post_simps initial_state_def sample_config_def)

section \<open>The gate\<close>

text \<open>
  Claim C6. Every request goes through \<^verbatim>\<open>APIValidator.check_api_status()\<close> first. When
  it returns \<^verbatim>\<open>False\<close> the answer is HTTP 403 with an error body, whatever the route,
  and the state differs from the one before only by the counted request: no view has
  run. When it returns \<^verbatim>\<open>True\<close> the view runs on the state the hook left.
\<close>

theorem expired_gate_blocks_request:
  "(check_api_status w = Returns False \<longrightarrow>
      handle_request cfg w rq st =
        (Response 403 (error_body ''API has expired. Please contact administrator.''),
         count_request st))
   \<and> (check_api_status w = Returns True \<longrightarrow>
      handle_request cfg w rq st = dispatch_request cfg w rq (count_request st))"
  by (simp add: handle_request_def before_request_def count_request_def)


theorem expired_gate_witness:
  "handle_request sample_config expired_world
       (post GhostAttack (PDict [(''team_code'', PStr ''12345678'')]))
       (initial_state sample_config 0)
     = (Response 403 (error_body ''API has expired. Please contact administrator.''),
        count_request (initial_state sample_config 0))
   \<and> handle_request sample_config sample_world (post Home PNone) (initial_state sample_config 0)
     = dispatch_request sample_config sample_world (post Home PNone)
         (count_request (initial_state sample_config 0))"
  using expired_gate_blocks_request
          [of expired_world sample_config
              "post GhostAttack (PDict [(''team_code'', PStr ''12345678'')])"
              "initial_state sample_config 0"]
        expired_gate_blocks_request
          [of sample_world sample_config "post Home PNone" "initial_state sample_config 0"]
  by (simp add: expired_world_def sample_world_simps)

section \<open>Exceptions inside the attack view\<close>

lemma ghost_attack_try_raises_state:
  assumes "ghost_attack_try cfg w rq st = (Raises e, st1)"
  shows "api_stats st1 = api_stats st \<and> error_log st1 = error_log st"
  using assms
  by (auto simp add: ghost_attack_try_def Let_def split: sum.splits if_splits prod.splits)

text \<open>
  Where the \<^verbatim>\<open>try\<close> block can raise: in \<^verbatim>\<open>request.get_json()\<close>; in \<^verbatim>\<open>data.get\<close>, when
  the body is a true value that is not a dictionary; in \<^verbatim>\<open>validate_team_code\<close>; and in
  \<^verbatim>\<open>send_single_ghost_attack\<close>. Nothing after the dispatch call raises.
\<close>

lemma ghost_attack_try_raises_iff:
  "fst (ghost_attack_try cfg w rq st) = Raises e \<longleftrightarrow>
     get_json rq = Raises e
     \<or> (\<exists>data. get_json rq = Returns data \<and> truthy data
           \<and> get data ''team_code'' PNone = Raises e)
     \<or> (\<exists>kvs team_code. get_json rq = Returns (PDict kvs)
           \<and> get (PDict kvs) ''team_code'' PNone = Returns team_code \<and> truthy team_code
           \<and> (validate_team_code w team_code = Raises e
               \<or> (validate_team_code w team_code = Returns True
                   \<and> (\<exists>ghost_name.
                         get (PDict kvs) ''ghost_name'' (PStr ''DRAGON Ghost'') = Returns ghost_name
                         \<and> send_single_ghost_attack w team_code ghost_name = Raises e))))"
proof (cases "get_json rq")
  case (Inl x)
  then show ?thesis by (simp add: ghost_attack_try_def)
next
  case (Inr data)
  show ?thesis
  proof (cases data)
    case (PDict kvs)
    with Inr show ?thesis
      by (auto simp add: ghost_attack_try_def get_def Let_def split: sum.splits prod.splits)
  qed (use Inr in \<open>auto simp add: ghost_attack_try_def get_def\<close>)
qed

text \<open>
  Claim C3. When the \<^verbatim>\<open>try\<close> block of \<^verbatim>\<open>ghost_attack\<close> raises, the \<^verbatim>\<open>except\<close> clause
  catches the exception: one line goes to \<^verbatim>\<open>logger.error\<close>, \<^verbatim>\<open>failed_attacks\<close> grows by
  exactly one while the other counters keep their values, the response is HTTP 500
  with an error body, and no exception leaves the view.
\<close>

theorem internal_error_caught:
  assumes "fst (ghost_attack_try cfg w rq st) = Raises e"
  shows "fst (ghost_attack cfg w rq st)
           = Response 500 (error_body (''Internal server error: '' @ str e))
       \<and> error_log (snd (ghost_attack cfg w rq st))
           = error_log st @ [''Ghost attack error: '' @ str e]
       \<and> failed_attacks (api_stats (snd (ghost_attack cfg w rq st)))
           = failed_attacks (api_stats st) + 1
       \<and> successful_ghost_attacks (api_stats (snd (ghost_attack cfg w rq st)))
           = successful_ghost_attacks (api_stats st)
       \<and> total_requests (api_stats (snd (ghost_attack cfg w rq st)))
           = total_requests (api_stats st)
       \<and> (\<forall>x. fst (ghost_attack cfg w rq st) \<noteq> Propagated x)"
proof -
  obtain st1 where t: "ghost_attack_try cfg w rq st = (Raises e, st1)"
    using assms by (cases "ghost_attack_try cfg w rq st") auto
  from ghost_attack_try_raises_state [OF t]
  have "api_stats st1 = api_stats st" and "error_log st1 = error_log st" by simp_all
  with t show ?thesis by (simp add: ghost_attack_def)
qed

theorem internal_error_witness:
  "fst (ghost_attack sample_config sample_world (post GhostAttack (PList [PInt 1]))
          (initial_state sample_config 0))
     = Response 500 (error_body (''Internal server error: '' @
          [CHR 0x27] @ ''list'' @ [CHR 0x27] @ '' object has no attribute '' @
          [CHR 0x27] @ ''get'' @ [CHR 0x27]))
   \<and> failed_attacks (api_stats (snd (ghost_attack sample_config sample_world
          (post GhostAttack (PList [PInt 1])) (initial_state sample_config 0)))) = 1"
proof -
  have r: "fst (ghost_attack_try sample_config sample_world (post GhostAttack (PList [PInt 1]))
             (initial_state sample_config 0)) = Raises (attribute_error (PList [PInt 1]) ''get'')"
    by (simp add: ghost_attack_try_def post_simps get_def)
  show ?thesis
    using internal_error_caught [OF r]
    by (simp add: attribute_error_def initial_state_def)
qed

lemma ghost_attack_try_not_propagated:
  "fst (ghost_attack_try cfg w rq st) \<noteq> Returns (Propagated x)"
  by (simp add: ghost_attack_try_def Let_def split: sum.splits prod.splits)

lemma ghost_attack_never_propagates: "fst (ghost_attack cfg w rq st) \<noteq> Propagated x"
proof (cases "ghost_attack_try cfg w rq st")
  case (Pair r st1)
  with ghost_attack_try_not_propagated [of cfg w rq st x] show ?thesis
    by (cases r) (auto simp add: ghost_attack_def)
qed

section \<open>The health endpoint\<close>

lemma floor_div_bounds:
  fixes a d :: int
  assumes "0 < d"
  shows "a div d * d \<le> a \<and> a < (a div d + 1) * d"
proof -
  have e: "a div d * d + a mod d = a" by simp
  have l: "0 \<le> a mod d" using assms by simp
  have u: "a mod d < d" using assms by simp
  have x: "(a div d + 1) * d = a div d * d + d" by (simp add: algebra_simps)
  from e l u show ?thesis unfolding x by linarith
qed

lemma whole_days_left_bounds:
  assumes "now w < START_TIME cfg + API_DURATION cfg"
  shows "whole_days_left cfg (now w) * microseconds_per_day
           \<le> START_TIME cfg + API_DURATION cfg - now w
       \<and> START_TIME cfg + API_DURATION cfg - now w
           < (whole_days_left cfg (now w) + 1) * microseconds_per_day"
proof -
  have pos: "0 < microseconds_per_day" by (simp add: microseconds_per_day_def)
  have w: "whole_days_left cfg (now w)
             = (START_TIME cfg + API_DURATION cfg - now w) div microseconds_per_day"
    using assms by (simp add: whole_days_left_def)
  show ?thesis unfolding w by (rule floor_div_bounds [OF pos])
qed

lemma decimal_overflow_days: "decimal 1000000000 = ''1000000000''"
  by (simp add: decimal_def decimal_nat.simps)

lemma decimal_MAX_DELTA_DAYS: "decimal MAX_DELTA_DAYS = ''999999999''"
  by (simp add: decimal_def MAX_DELTA_DAYS_def decimal_nat.simps)

lemma timedelta_sub_Returns:
  "timedelta_sub a b = Returns r \<longleftrightarrow> valid_timedelta (a - b) \<and> r = a - b"
  by (auto simp add: timedelta_sub_def valid_timedelta_def Let_def)

lemma timedelta_sub_overflow:
  "timedelta_sub (API_DURATION overflow_config) (now sample_world - START_TIME overflow_config)
     = Raises (Exception ''days=1000000000; must have magnitude <= 999999999'')"
proof -
  have d: "days (API_DURATION overflow_config
                  - (now sample_world - START_TIME overflow_config)) = 1000000000"
    by (simp add: overflow_config_def sample_world_def days_def microseconds_per_day_def)
  show ?thesis
    unfolding timedelta_sub_def Let_def d
    by (simp add: MAX_DELTA_DAYS_def decimal_overflow_days
        decimal_MAX_DELTA_DAYS [unfolded MAX_DELTA_DAYS_def])
qed

text \<open>
  Claim C7, as stated, fails: with a validity window of \<^verbatim>\<open>timedelta.max\<close> that starts
  one day after now, both values a \<^verbatim>\<open>timedelta\<close> and a \<^verbatim>\<open>datetime\<close> can hold,
  \<^verbatim>\<open>Config.API_DURATION - elapsed\<close> raises OverflowError inside the \<^verbatim>\<open>try\<close> block, and
  the health view answers HTTP 500 with an error body that has neither
  \<^verbatim>\<open>api_running\<close> nor \<^verbatim>\<open>account_status\<close> nor \<^verbatim>\<open>days_remaining\<close> nor the statistics.
\<close>

theorem health_overflow_answers_500:
  "valid_timedelta (API_DURATION overflow_config)
   \<and> fst (system_health overflow_config sample_world (initial_state overflow_config 0))
       = Response 500 (error_body
           ''Health check failed: days=1000000000; must have magnitude <= 999999999'')
   \<and> body_field (fst (system_health overflow_config sample_world
                        (initial_state overflow_config 0))) ''api_running'' = None
   \<and> body_field (fst (system_health overflow_config sample_world
                        (initial_state overflow_config 0))) ''account_status'' = None
   \<and> body_field (fst (system_health overflow_config sample_world
                        (initial_state overflow_config 0))) ''days_remaining'' = None
   \<and> body_field (fst (system_health overflow_config sample_world
                        (initial_state overflow_config 0))) ''statistics'' = None"
proof -
  have v: "valid_timedelta (API_DURATION overflow_config)"
    by (simp add: valid_timedelta_def overflow_config_def days_def microseconds_per_day_def
        MAX_DELTA_DAYS_def)
  have r: "system_health_try overflow_config sample_world (initial_state overflow_config 0)
             = Raises (Exception ''days=1000000000; must have magnitude <= 999999999'')"
    by (simp add: system_health_try_def Let_def timedelta_sub_overflow)
  show ?thesis
    using v by (simp add: system_health_def r body_field_def error_body_def)
qed

text \<open>
  Claim C7, amended. When the \<^verbatim>\<open>try\<close> block of the health view does not raise (the
  time left, \<^verbatim>\<open>Config.API_DURATION - elapsed\<close>, is a \<^verbatim>\<open>timedelta\<close> in range and
  \<^verbatim>\<open>get_main_account\<close> returns), the view answers HTTP 200 with \<^verbatim>\<open>api_running\<close> true,
  \<^verbatim>\<open>account_status\<close> ``Connected'' exactly when there is an account and it is connected
  and ``Disconnected'' otherwise, the statistics, and \<^verbatim>\<open>days_remaining\<close> equal to the
  whole days left of the validity window, which is never negative; the state is left as
  it was. When the \<^verbatim>\<open>try\<close> block raises, the exception is logged and answered with
  HTTP 500 and an error body.
\<close>

theorem health_report:
  "(timedelta_sub (API_DURATION cfg) (now w - START_TIME cfg) = Returns remaining
      \<and> get_main_account w = Returns account
    \<longrightarrow> snd (system_health cfg w st) = st
       \<and> http_status (fst (system_health cfg w st)) = Some 200
       \<and> body_field (fst (system_health cfg w st)) ''api_running'' = Some (PBool True)
       \<and> body_field (fst (system_health cfg w st)) ''account_status''
           = Some (PStr (if (case account of None \<Rightarrow> False | Some a \<Rightarrow> is_connected a)
                         then ''Connected'' else ''Disconnected''))
       \<and> body_field (fst (system_health cfg w st)) ''statistics''
           = Some (stats_value (api_stats st))
       \<and> body_field (fst (system_health cfg w st)) ''days_remaining''
           = Some (PInt (whole_days_left cfg (now w)))
       \<and> 0 \<le> whole_days_left cfg (now w))
   \<and> (system_health_try cfg w st = Raises e
    \<longrightarrow> system_health cfg w st
          = (Response 500 (error_body (''Health check failed: '' @ str e)),
             st\<lparr>error_log := error_log st @ [''Health check error: '' @ str e]\<rparr>))"
proof (rule conjI; rule impI)
  assume "system_health_try cfg w st = Raises e"
  then show "system_health cfg w st
          = (Response 500 (error_body (''Health check failed: '' @ str e)),
             st\<lparr>error_log := error_log st @ [''Health check error: '' @ str e]\<rparr>)"
    by (simp add: system_health_def)
next
  assume a: "timedelta_sub (API_DURATION cfg) (now w - START_TIME cfg) = Returns remaining
      \<and> get_main_account w = Returns account"
  then have sub: "timedelta_sub (API_DURATION cfg) (now w - START_TIME cfg) = Returns remaining"
    and acct: "get_main_account w = Returns account"
    by blast+
  from sub have rem: "remaining = API_DURATION cfg - (now w - START_TIME cfg)"
    by (simp add: timedelta_sub_Returns)
  let ?left = "START_TIME cfg + API_DURATION cfg - now w"
  have same: "API_DURATION cfg - (now w - START_TIME cfg) = ?left" by simp
  have d: "max 0 (days remaining) = whole_days_left cfg (now w)"
  proof (cases "START_TIME cfg + API_DURATION cfg \<le> now w")
    case True
    then have "?left \<le> 0" by simp
    then have "?left div microseconds_per_day \<le> 0"
      by (simp add: microseconds_per_day_def div_nonpos_pos_le0)
    with True show ?thesis
      by (simp add: whole_days_left_def days_def rem same)
  next
    case False
    then have "0 \<le> ?left" by simp
    then have "0 \<le> ?left div microseconds_per_day"
      by (simp add: microseconds_per_day_def pos_imp_zdiv_nonneg_iff)
    with False show ?thesis
      by (simp add: whole_days_left_def days_def rem same)
  qed
  have nonneg: "0 \<le> whole_days_left cfg (now w)"
    using d [symmetric] by simp
  have ok: "system_health_try cfg w st =
      Returns (Response 200
         (PDict [(''status'', PStr ''success''),
                 (''api_running'', PBool True),
                 (''api_name'', PStr ''DRAGON Single Ghost API''),
                 (''mode'', PStr ''Single Account''),
                 (''main_account'', MAIN_ACCOUNT_ID cfg),
                 (''account_status'',
                    PStr (if (case account of None \<Rightarrow> False | Some a \<Rightarrow> is_connected a)
                          then ''Connected'' else ''Disconnected'')),
                 (''start_time'', PStr (isoformat w (START_TIME cfg))),
                 (''days_remaining'', PInt (whole_days_left cfg (now w))),
                 (''statistics'', stats_value (api_stats st))]))"
    unfolding system_health_try_def Let_def sub acct d [symmetric] by simp
  show "snd (system_health cfg w st) = st
       \<and> http_status (fst (system_health cfg w st)) = Some 200
       \<and> body_field (fst (system_health cfg w st)) ''api_running'' = Some (PBool True)
       \<and> body_field (fst (system_health cfg w st)) ''account_status''
           = Some (PStr (if (case account of None \<Rightarrow> False | Some a \<Rightarrow> is_connected a)
                         then ''Connected'' else ''Disconnected''))
       \<and> body_field (fst (system_health cfg w st)) ''statistics''
           = Some (stats_value (api_stats st))
       \<and> body_field (fst (system_health cfg w st)) ''days_remaining''
           = Some (PInt (whole_days_left cfg (now w)))
       \<and> 0 \<le> whole_days_left cfg (now w)"
    using nonneg by (simp add: system_health_def ok body_field_def http_status_def)
qed

theorem health_report_witness:
  "http_status (fst (system_health sample_config sample_world (initial_state sample_config 0)))
     = Some 200
   \<and> body_field (fst (system_health sample_config sample_world (initial_state sample_config 0)))
        ''api_running'' = Some (PBool True)
   \<and> body_field (fst (system_health sample_config sample_world (initial_state sample_config 0)))
        ''account_status'' = Some (PStr ''Connected'')
   \<and> body_field (fst (system_health sample_config sample_world (initial_state sample_config 0)))
        ''days_remaining'' = Some (PInt 26)
   \<and> system_health overflow_config sample_world (initial_state overflow_config 0)
       = (Response 500 (error_body
            ''Health check failed: days=1000000000; must have magnitude <= 999999999''),
          (initial_state overflow_config 0)
            \<lparr>error_log :=
               [''Health check error: days=1000000000; must have magnitude <= 999999999'']\<rparr>)"
proof -
  have d: "whole_days_left sample_config (now sample_world) = 26"
    by (simp add: whole_days_left_def sample_config_def sample_world_def
        microseconds_per_day_def)
  have sub: "timedelta_sub (API_DURATION sample_config)
               (now sample_world - START_TIME sample_config)
             = Returns (API_DURATION sample_config
                         - (now sample_world - START_TIME sample_config))"
    by (simp add: timedelta_sub_Returns valid_timedelta_def days_def sample_config_def
        sample_world_def microseconds_per_day_def MAX_DELTA_DAYS_def)
  have r: "system_health_try overflow_config sample_world (initial_state overflow_config 0)
             = Raises (Exception ''days=1000000000; must have magnitude <= 999999999'')"
    by (simp add: system_health_try_def Let_def timedelta_sub_overflow)
  show ?thesis
    using health_report [of sample_config sample_world
                            "API_DURATION sample_config
                               - (now sample_world - START_TIME sample_config)"
                            "Some sample_account" "initial_state sample_config 0"]
          health_report [of overflow_config sample_world _ _ "initial_state overflow_config 0"
                            "Exception ''days=1000000000; must have magnitude <= 999999999''"]
          sub r
    by (simp add: sample_world_simps d sample_account_def initial_state_def)
qed

section \<open>The counters\<close>

lemma ghost_attack_counters:
  "total_requests (api_stats (snd (ghost_attack cfg w rq st))) = total_requests (api_stats st)
   \<and> ((successful_ghost_attacks (api_stats (snd (ghost_attack cfg w rq st)))
          = successful_ghost_attacks (api_stats st)
        \<and> failed_attacks (api_stats (snd (ghost_attack cfg w rq st)))
          = failed_attacks (api_stats st))
      \<or> (successful_ghost_attacks (api_stats (snd (ghost_attack cfg w rq st)))
          = successful_ghost_attacks (api_stats st) + 1
        \<and> failed_attacks (api_stats (snd (ghost_attack cfg w rq st)))
          = failed_attacks (api_stats st))
      \<or> (successful_ghost_attacks (api_stats (snd (ghost_attack cfg w rq st)))
          = successful_ghost_attacks (api_stats st)
        \<and> failed_attacks (api_stats (snd (ghost_attack cfg w rq st)))
          = failed_attacks (api_stats st) + 1))"
  by (simp add: ghost_attack_def ghost_attack_try_def Let_def
      split: sum.splits prod.splits)

lemma test_ghost_stats: "api_stats (snd (test_ghost cfg w rq st)) = api_stats st"
  by (simp add: test_ghost_def test_ghost_try_def Let_def split: sum.splits prod.splits)

lemma account_status_stats: "api_stats (snd (account_status w st)) = api_stats st"
  by (simp add: account_status_def split: sum.splits)

lemma system_health_stats: "api_stats (snd (system_health cfg w st)) = api_stats st"
  by (cases "system_health_try cfg w st") (simp_all add: system_health_def)

lemma home_stats: "api_stats (snd (home cfg w st)) = api_stats st"
  by (simp add: home_def)

lemma dispatch_request_counters:
  "total_requests (api_stats (snd (dispatch_request cfg w rq st)))
     = total_requests (api_stats st)
   \<and> ((successful_ghost_attacks (api_stats (snd (dispatch_request cfg w rq st)))
          = successful_ghost_attacks (api_stats st)
        \<and> failed_attacks (api_stats (snd (dispatch_request cfg w rq st)))
          = failed_attacks (api_stats st))
      \<or> (successful_ghost_attacks (api_stats (snd (dispatch_request cfg w rq st)))
          = successful_ghost_attacks (api_stats st) + 1
        \<and> failed_attacks (api_stats (snd (dispatch_request cfg w rq st)))
          = failed_attacks (api_stats st))
      \<or> (successful_ghost_attacks (api_stats (snd (dispatch_request cfg w rq st)))
          = successful_ghost_attacks (api_stats st)
        \<and> failed_attacks (api_stats (snd (dispatch_request cfg w rq st)))
          = failed_attacks (api_stats st) + 1))"
proof (cases "endpoint rq")
  case GhostAttack
  then show ?thesis
    using ghost_attack_counters [of cfg w rq st] by (simp add: dispatch_request_def)
qed (simp_all add: dispatch_request_def home_stats account_status_stats
       system_health_stats test_ghost_stats)

lemma before_request_counts: "snd (before_request w st) = count_request st"
  by (cases "check_api_status w") (simp_all add: before_request_def count_request_def Let_def)

lemma handle_request_cases:
  "handle_request cfg w rq st = (fst (handle_request cfg w rq st), count_request st)
   \<or> handle_request cfg w rq st = dispatch_request cfg w rq (count_request st)"
  by (cases "check_api_status w")
     (simp_all add: handle_request_def before_request_def count_request_def Let_def)

lemma handle_request_counters:
  "total_requests (api_stats (snd (handle_request cfg w rq st)))
     = total_requests (api_stats st) + 1
   \<and> ((successful_ghost_attacks (api_stats (snd (handle_request cfg w rq st)))
          = successful_ghost_attacks (api_stats st)
        \<and> failed_attacks (api_stats (snd (handle_request cfg w rq st)))
          = failed_attacks (api_stats st))
      \<or> (successful_ghost_attacks (api_stats (snd (handle_request cfg w rq st)))
          = successful_ghost_attacks (api_stats st) + 1
        \<and> failed_attacks (api_stats (snd (handle_request cfg w rq st)))
          = failed_attacks (api_stats st))
      \<or> (successful_ghost_attacks (api_stats (snd (handle_request cfg w rq st)))
          = successful_ghost_attacks (api_stats st)
        \<and> failed_attacks (api_stats (snd (handle_request cfg w rq st)))
          = failed_attacks (api_stats st) + 1))"
proof -
  from handle_request_cases [of cfg w rq st] show ?thesis
  proof
    assume "handle_request cfg w rq st = (fst (handle_request cfg w rq st), count_request st)"
    then have "snd (handle_request cfg w rq st) = count_request st"
      by (metis snd_conv)
    then show ?thesis by (simp add: count_request_simps)
  next
    assume "handle_request cfg w rq st = dispatch_request cfg w rq (count_request st)"
    then show ?thesis
      using dispatch_request_counters [of cfg w rq "count_request st"]
      by (simp add: count_request_simps)
  qed
qed

lemma handle_request_bounded:
  assumes "counters_bounded st"
  shows "counters_bounded (snd (handle_request cfg w rq st))"
  using assms handle_request_counters [of cfg w rq st]
  unfolding counters_bounded_def by linarith

lemma serve_bounded:
  "counters_bounded st \<Longrightarrow> counters_bounded (serve cfg rqs st)"
proof (induction rqs arbitrary: st)
  case Nil
  then show ?case by simp
next
  case (Cons a rqs)
  obtain w rq where a: "a = (w, rq)" by (cases a)
  from Cons.prems have "counters_bounded (snd (handle_request cfg w rq st))"
    by (rule handle_request_bounded)
  then show ?case unfolding a by (simp add: Cons.IH)
qed

lemma initial_state_bounded: "counters_bounded (initial_state cfg t0)"
  by (simp add: counters_bounded_def initial_state_def)

text \<open>
  Claim C8. After any sequence of requests served from the initial state, and again
  between the hook and the view of the next request, the successful and the failed
  attacks together do not exceed the requests seen. Every request adds
  exactly one to \<^verbatim>\<open>total_requests\<close>, in the hook that runs before any view, and
  leaves the two attack counters as they were or adds one to exactly one of them.
\<close>

theorem counters_never_exceed_requests:
  "counters_bounded (serve cfg rqs (initial_state cfg t0))
   \<and> counters_bounded (snd (before_request w' (serve cfg rqs (initial_state cfg t0))))
   \<and> total_requests (api_stats (snd (before_request w st)))
       = total_requests (api_stats st) + 1
   \<and> total_requests (api_stats (snd (handle_request cfg w rq st)))
       = total_requests (api_stats st) + 1
   \<and> ((successful_ghost_attacks (api_stats (snd (handle_request cfg w rq st)))
          = successful_ghost_attacks (api_stats st)
        \<and> failed_attacks (api_stats (snd (handle_request cfg w rq st)))
          = failed_attacks (api_stats st))
      \<or> (successful_ghost_attacks (api_stats (snd (handle_request cfg w rq st)))
          = successful_ghost_attacks (api_stats st) + 1
        \<and> failed_attacks (api_stats (snd (handle_request cfg w rq st)))
          = failed_attacks (api_stats st))
      \<or> (successful_ghost_attacks (api_stats (snd (handle_request cfg w rq st)))
          = successful_ghost_attacks (api_stats st)
        \<and> failed_attacks (api_stats (snd (handle_request cfg w rq st)))
          = failed_attacks (api_stats st) + 1))"
proof -
  have b: "counters_bounded (serve cfg rqs (initial_state cfg t0))"
    by (rule serve_bounded [OF initial_state_bounded])
  then have "counters_bounded (count_request (serve cfg rqs (initial_state cfg t0)))"
    by (simp add: counters_bounded_def count_request_simps)
  with b handle_request_counters [of cfg w rq st] show ?thesis
    by (simp add: before_request_counts count_request_simps)
qed


section \<open>The test endpoint\<close>

text \<open>
  Claim C9. A POST to the test endpoint whose call of \<^verbatim>\<open>send_single_ghost_attack\<close>
  returns is answered with HTTP 200, also when the attack reports failure (the body's
  \<^verbatim>\<open>status\<close> is then \<^verbatim>\<open>error\<close>), and neither attack counter changes.
\<close>

theorem test_endpoint_answers_200:
  assumes "check_api_status w = Returns True"
    and "endpoint rq = TestGhost"
    and "get_json rq = Returns data"
    and "get data ''team_code'' (PStr ''12345678'') = Returns team_code"
    and "get data ''ghost_name'' (PStr ''TEST GHOST'') = Returns ghost_name"
    and "send_single_ghost_attack w team_code ghost_name = Returns (success, message)"
  shows "http_status (fst (handle_request cfg w rq st)) = Some 200
       \<and> body_field (fst (handle_request cfg w rq st)) ''status''
           = Some (PStr (if success then ''success'' else ''error''))
       \<and> successful_ghost_attacks (api_stats (snd (handle_request cfg w rq st)))
           = successful_ghost_attacks (api_stats st)
       \<and> failed_attacks (api_stats (snd (handle_request cfg w rq st)))
           = failed_attacks (api_stats st)"
  using assms
  by (simp add: handle_request_open dispatch_request_def test_ghost_def test_ghost_try_def
      Let_def http_status_def body_field_def count_request_simps)

theorem test_endpoint_answers_200_witness:
  "http_status (fst (handle_request sample_config failing_world
       (post TestGhost (PDict [(''team_code'', PStr ''87654321'')]))
       (initial_state sample_config 0))) = Some 200
   \<and> body_field (fst (handle_request sample_config failing_world
       (post TestGhost (PDict [(''team_code'', PStr ''87654321'')]))
       (initial_state sample_config 0))) ''status'' = Some (PStr ''error'')
   \<and> successful_ghost_attacks (api_stats (snd (handle_request sample_config failing_world
       (post TestGhost (PDict [(''team_code'', PStr ''87654321'')]))
       (initial_state sample_config 0)))) = 0
   \<and> failed_attacks (api_stats (snd (handle_request sample_config failing_world
       (post TestGhost (PDict [(''team_code'', PStr ''87654321'')]))
       (initial_state sample_config 0)))) = 0"
  using test_endpoint_answers_200
          [of failing_world "post TestGhost (PDict [(''team_code'', PStr ''87654321'')])"
              "PDict [(''team_code'', PStr ''87654321'')]" "PStr ''87654321''"
              "PStr ''TEST GHOST''" False "''Account not connected''" sample_config
              "initial_state sample_config 0"]
  by (simp add: failing_world_simps post_simps get_def initial_state_def)

text \<open>
  Claim C10. A POST to the test endpoint for which \<^verbatim>\<open>request.get_json()\<close> is
  \<^verbatim>\<open>None\<close> makes \<^verbatim>\<open>data.get\<close> raise AttributeError in the \<^verbatim>\<open>try\<close> block; the attack is
  never sent, and the answer is HTTP 500 with a message that starts with ``Test failed:'',
  not a 400.
\<close>

theorem test_endpoint_null_body:
  assumes "check_api_status w = Returns True"
    and "endpoint rq = TestGhost"
    and "get_json rq = Returns PNone"
  shows "fst (test_ghost_try cfg w rq (count_request st))
           = Raises (attribute_error PNone ''get'')
       \<and> fst (handle_request cfg w rq st)
           = Response 500 (error_body (''Test failed: '' @ [CHR 0x27] @ ''NoneType'' @ [CHR 0x27]
               @ '' object has no attribute '' @ [CHR 0x27] @ ''get'' @ [CHR 0x27]))
       \<and> dispatch_calls (snd (handle_request cfg w rq st)) = dispatch_calls st
       \<and> api_stats (snd (handle_request cfg w rq st)) = api_stats (count_request st)"
  using assms
  by (simp add: handle_request_open dispatch_request_def test_ghost_def test_ghost_try_def
      get_def attribute_error_def count_request_simps)

theorem test_endpoint_null_body_witness:
  "fst (handle_request sample_config sample_world (post TestGhost PNone)
          (initial_state sample_config 0))
     = Response 500 (error_body (''Test failed: '' @ [CHR 0x27] @ ''NoneType'' @ [CHR 0x27]
               @ '' object has no attribute '' @ [CHR 0x27] @ ''get'' @ [CHR 0x27]))
   \<and> dispatch_calls (snd (handle_request sample_config sample_world (post TestGhost PNone)
          (initial_state sample_config 0))) = []"
  using test_endpoint_null_body
          [of sample_world "post TestGhost PNone" sample_config "initial_state sample_config 0"]
  by (simp add: sample_world_simps post_simps initial_state_def)

text \<open>When \<^verbatim>\<open>request.get_json()\<close> itself raises, as it does on a body that is not
  JSON, the answer is the same 500 and the state changes only by the counted request.\<close>

lemma test_endpoint_unreadable_body:
  assumes "check_api_status w = Returns True"
    and "endpoint rq = TestGhost"
    and "get_json rq = Raises e"
  shows "handle_request cfg w rq st
           = (Response 500 (error_body (''Test failed: '' @ str e)), count_request st)"
  using assms
  by (simp add: handle_request_open dispatch_request_def test_ghost_def test_ghost_try_def)

text \<open>
  Claim C2, as stated, fails: the same body sent to the test endpoint and to the attack
  endpoint is answered with different keys when the attack succeeds (the test endpoint
  nests the inputs under \<^verbatim>\<open>test_data\<close> and has no \<^verbatim>\<open>timestamp\<close>), and with a different
  HTTP status when the attack reports failure (200 against 500).
\<close>

theorem test_response_shape_differs:
  "\<not> same_shape
       (fst (handle_request sample_config sample_world
               (post TestGhost (PDict [(''team_code'', PStr ''12345678'')]))
               (initial_state sample_config 0)))
       (fst (handle_request sample_config sample_world
               (post GhostAttack (PDict [(''team_code'', PStr ''12345678'')]))
               (initial_state sample_config 0)))
   \<and> \<not> same_shape
       (fst (handle_request sample_config failing_world
               (post TestGhost (PDict [(''team_code'', PStr ''12345678'')]))
               (initial_state sample_config 0)))
       (fst (handle_request sample_config failing_world
               (post GhostAttack (PDict [(''team_code'', PStr ''12345678'')]))
               (initial_state sample_config 0)))"
proof -
  have keys: "set [''status'', ''message'', ''test_data'']
                \<noteq> set [''status'', ''message'', ''team_code'', ''ghost_name'',
                         ''account_used'', ''timestamp'']"
  proof
    assume "set [''status'', ''message'', ''test_data'']
              = set [''status'', ''message'', ''team_code'', ''ghost_name'',
                     ''account_used'', ''timestamp'']"
    then have "''timestamp'' \<in> set [''status'', ''message'', ''test_data'']"
      by simp
    then show False by simp
  qed
  show ?thesis
    using keys
    by (simp add: handle_request_open sample_world_simps failing_world_simps post_simps
        dispatch_request_def test_ghost_def test_ghost_try_def ghost_attack_def
        ghost_attack_try_def get_def same_shape_def http_status_def response_keys_def
        error_body_def Let_def)
qed

text \<open>
  Claim C2, amended. A POST to the test endpoint with a JSON object, whose call of
  \<^verbatim>\<open>send_single_ghost_attack\<close> returns, sends the attack with \<^verbatim>\<open>team_code\<close> and
  \<^verbatim>\<open>ghost_name\<close> taken from the object, \<^verbatim>\<open>"12345678"\<close> and \<^verbatim>\<open>"TEST GHOST"\<close> standing in
  for an omitted field, and is answered with HTTP 200 and the body
  \<^verbatim>\<open>{status, message, test_data: {team_code, ghost_name, account_used}}\<close>, where
  \<^verbatim>\<open>status\<close> is \<^verbatim>\<open>success\<close> or \<^verbatim>\<open>error\<close> as the attack reports. When the \<^verbatim>\<open>try\<close> block
  raises, the answer is HTTP 500 with \<^verbatim>\<open>{status: error, message}\<close>.
\<close>

theorem test_endpoint_response:
  assumes "check_api_status w = Returns True"
    and "endpoint rq = TestGhost"
  shows "(get_json rq = Returns (PDict kvs)
          \<and> team_code = (case map_of kvs ''team_code'' of
                            None \<Rightarrow> PStr ''12345678'' | Some v \<Rightarrow> v)
          \<and> ghost_name = (case map_of kvs ''ghost_name'' of
                            None \<Rightarrow> PStr ''TEST GHOST'' | Some v \<Rightarrow> v)
          \<and> send_single_ghost_attack w team_code ghost_name = Returns (success, message)
          \<longrightarrow> handle_request cfg w rq st =
                (Response 200
                   (PDict [(''status'', PStr (if success then ''success'' else ''error'')),
                           (''message'', PStr message),
                           (''test_data'',
                              PDict [(''team_code'', team_code),
                                     (''ghost_name'', ghost_name),
                                     (''account_used'', MAIN_ACCOUNT_ID cfg)])]),
                 (count_request st)
                   \<lparr>dispatch_calls := dispatch_calls st @ [(team_code, ghost_name)]\<rparr>))
       \<and> (fst (test_ghost_try cfg w rq (count_request st)) = Raises e
          \<longrightarrow> fst (handle_request cfg w rq st)
                = Response 500 (error_body (''Test failed: '' @ str e)))"
proof (intro conjI impI)
  assume "get_json rq = Returns (PDict kvs)
          \<and> team_code = (case map_of kvs ''team_code'' of
                            None \<Rightarrow> PStr ''12345678'' | Some v \<Rightarrow> v)
          \<and> ghost_name = (case map_of kvs ''ghost_name'' of
                            None \<Rightarrow> PStr ''TEST GHOST'' | Some v \<Rightarrow> v)
          \<and> send_single_ghost_attack w team_code ghost_name = Returns (success, message)"
  then have j: "get_json rq = Returns (PDict kvs)"
    and tc: "team_code = (case map_of kvs ''team_code'' of
                            None \<Rightarrow> PStr ''12345678'' | Some v \<Rightarrow> v)"
    and gn: "ghost_name = (case map_of kvs ''ghost_name'' of
                            None \<Rightarrow> PStr ''TEST GHOST'' | Some v \<Rightarrow> v)"
    and sent: "send_single_ghost_attack w team_code ghost_name = Returns (success, message)"
    by blast+
  have g1: "get (PDict kvs) ''team_code'' (PStr ''12345678'') = Returns team_code"
    by (simp add: get_def tc)
  have g2: "get (PDict kvs) ''ghost_name'' (PStr ''TEST GHOST'') = Returns ghost_name"
    by (simp add: get_def gn)
  from assms j g1 g2 sent show "handle_request cfg w rq st =
                (Response 200
                   (PDict [(''status'', PStr (if success then ''success'' else ''error'')),
                           (''message'', PStr message),
                           (''test_data'',
                              PDict [(''team_code'', team_code),
                                     (''ghost_name'', ghost_name),
                                     (''account_used'', MAIN_ACCOUNT_ID cfg)])]),
                 (count_request st)
                   \<lparr>dispatch_calls := dispatch_calls st @ [(team_code, ghost_name)]\<rparr>)"
    by (simp add: handle_request_open dispatch_request_def test_ghost_def test_ghost_try_def
        Let_def count_request_simps)
next
  assume r: "fst (test_ghost_try cfg w rq (count_request st)) = Raises e"
  then obtain st1 where "test_ghost_try cfg w rq (count_request st) = (Raises e, st1)"
    by (cases "test_ghost_try cfg w rq (count_request st)") auto
  with assms show "fst (handle_request cfg w rq st)
                = Response 500 (error_body (''Test failed: '' @ str e))"
    by (simp add: handle_request_open dispatch_request_def test_ghost_def)
qed

theorem test_endpoint_response_witness:
  "handle_request sample_config sample_world (post TestGhost (PDict []))
       (initial_state sample_config 0) =
     (Response 200
        (PDict [(''status'', PStr ''success''),
                (''message'', PStr ''Ghost sent''),
                (''test_data'',
                   PDict [(''team_code'', PStr ''12345678''),
                          (''ghost_name'', PStr ''TEST GHOST''),
                          (''account_used'', PStr ''4100000001'')])]),
      (count_request (initial_state sample_config 0))
         \<lparr>dispatch_calls := [(PStr ''12345678'', PStr ''TEST GHOST'')]\<rparr>)
   \<and> fst (handle_request sample_config sample_world (post TestGhost (PStr ''12345678''))
            (initial_state sample_config 0))
       = Response 500 (error_body (''Test failed: '' @ [CHR 0x27] @ ''str'' @ [CHR 0x27]
               @ '' object has no attribute '' @ [CHR 0x27] @ ''get'' @ [CHR 0x27]))"
proof -
  have r: "fst (test_ghost_try sample_config sample_world (post TestGhost (PStr ''12345678''))
                 (count_request (initial_state sample_config 0)))
             = Raises (attribute_error (PStr ''12345678'') ''get'')"
    by (simp add: test_ghost_try_def post_simps get_def)
  show ?thesis
    using test_endpoint_response
            [of sample_world "post TestGhost (PDict [])" "[]" "PStr ''12345678''"
                "PStr ''TEST GHOST''" True "''Ghost sent''" sample_config
                "initial_state sample_config 0"]
          test_endpoint_response
            [of sample_world "post TestGhost (PStr ''12345678'')" _ _ _ _ _ sample_config
                "initial_state sample_config 0" "attribute_error (PStr ''12345678'') ''get''"]
          r
    by (simp add: sample_world_simps post_simps initial_state_def sample_config_def
        attribute_error_def)
qed

section \<open>The dispatch lock: exclusion and order\<close>

lemma idle_invariant: "lock_invariant idle"
  by (simp add: lock_invariant_def idle_def)

lemma in_flight_single:
  assumes "length xs \<le> 1" and "t \<in> set xs"
  shows "xs = [t]"
proof (cases xs)
  case Nil
  with assms(2) show ?thesis by simp
next
  case (Cons a ys)
  with assms(1) have "ys = []" by simp
  with Cons assms(2) show ?thesis by simp
qed

lemma lock_invariantD:
  assumes "lock_invariant s"
  shows "locked s \<longleftrightarrow> in_flight s \<noteq> []"
    and "length (in_flight s) \<le> 1"
    and "arrived s = started s @ waiting s"
    and "started s = map fst (returned s) @ in_flight s"
    and "distinct (arrived s)"
  using assms unfolding lock_invariant_def by blast+

lemma lock_invariantI:
  assumes "locked s \<longleftrightarrow> in_flight s \<noteq> []"
    and "length (in_flight s) \<le> 1"
    and "arrived s = started s @ waiting s"
    and "started s = map fst (returned s) @ in_flight s"
    and "distinct (arrived s)"
  shows "lock_invariant s"
  using assms unfolding lock_invariant_def by blast

lemma step_invariant:
  assumes "lock_invariant s" and "step e s = Some s'"
  shows "lock_invariant s'"
proof (cases e)
  case (Call t)
  with assms(2) have fresh: "t \<notin> set (arrived s)"
    and s': "s' = s\<lparr>waiting := waiting s @ [t], arrived := arrived s @ [t]\<rparr>"
    by (auto split: if_splits)
  show ?thesis
  proof (rule lock_invariantI)
    show "locked s' \<longleftrightarrow> in_flight s' \<noteq> []"
      using lock_invariantD(1) [OF assms(1)] by (simp add: s')
    show "length (in_flight s') \<le> 1"
      using lock_invariantD(2) [OF assms(1)] by (simp add: s')
    show "arrived s' = started s' @ waiting s'"
      using lock_invariantD(3) [OF assms(1)] by (simp add: s')
    show "started s' = map fst (returned s') @ in_flight s'"
      using lock_invariantD(4) [OF assms(1)] by (simp add: s')
    show "distinct (arrived s')"
      using lock_invariantD(5) [OF assms(1)] fresh by (simp add: s')
  qed
next
  case Acquire
  with assms(2) obtain t rest where free: "\<not> locked s" and w: "waiting s = t # rest"
    and s': "s' = s\<lparr>locked := True, waiting := rest, in_flight := t # in_flight s,
                      started := started s @ [t]\<rparr>"
    by (auto split: if_splits list.splits)
  from lock_invariantD(1) [OF assms(1)] free have none: "in_flight s = []"
    by simp
  show ?thesis
  proof (rule lock_invariantI)
    show "locked s' \<longleftrightarrow> in_flight s' \<noteq> []"
      by (simp add: s')
    show "length (in_flight s') \<le> 1"
      by (simp add: s' none)
    show "arrived s' = started s' @ waiting s'"
      using lock_invariantD(3) [OF assms(1)] by (simp add: s' w)
    show "started s' = map fst (returned s') @ in_flight s'"
      using lock_invariantD(4) [OF assms(1)] by (simp add: s' none)
    show "distinct (arrived s')"
      using lock_invariantD(5) [OF assms(1)] by (simp add: s')
  qed
next
  case (Return t x)
  with assms(2) have running: "t \<in> set (in_flight s)"
    and s': "s' = s\<lparr>locked := False, in_flight := removeAll t (in_flight s),
                      returned := returned s @ [(t, x)]\<rparr>"
    by (auto split: if_splits)
  from lock_invariantD(2) [OF assms(1)] running have one: "in_flight s = [t]"
    by (rule in_flight_single)
  show ?thesis
  proof (rule lock_invariantI)
    show "locked s' \<longleftrightarrow> in_flight s' \<noteq> []"
      by (simp add: s' one)
    show "length (in_flight s') \<le> 1"
      by (simp add: s' one)
    show "arrived s' = started s' @ waiting s'"
      using lock_invariantD(3) [OF assms(1)] by (simp add: s')
    show "started s' = map fst (returned s') @ in_flight s'"
      using lock_invariantD(4) [OF assms(1)] by (simp add: s' one)
    show "distinct (arrived s')"
      using lock_invariantD(5) [OF assms(1)] by (simp add: s')
  qed
qed

lemma run_invariant:
  "lock_invariant s \<Longrightarrow> run es s = Some s' \<Longrightarrow> lock_invariant s'"
proof (induction es arbitrary: s)
  case Nil
  then show ?case by simp
next
  case (Cons e es)
  from Cons.prems(2) obtain s1 where e: "step e s = Some s1" and r: "run es s1 = Some s'"
    by (auto split: option.splits)
  from Cons.prems(1) e have "lock_invariant s1" by (rule step_invariant)
  then show ?case using r by (rule Cons.IH)
qed

text \<open>
  Claim C1. However the concurrent calls of \<^verbatim>\<open>SendSingleGhostAttack\<close> are interleaved,
  in every state they can reach at most one \<^verbatim>\<open>SendAction\<close> is in flight; the calls whose
  \<^verbatim>\<open>SendAction\<close> has started are, in this order, the first to have arrived, and every
  other caller that has arrived is still waiting in its place in the line: none is
  dropped and none overtakes. Each started call has returned or is the one in flight.
\<close>

theorem send_action_exclusive_and_fifo:
  assumes "run es idle = Some s"
  shows "length (in_flight s) \<le> 1
       \<and> arrived s = started s @ waiting s
       \<and> started s = map fst (returned s) @ in_flight s
       \<and> distinct (arrived s)"
  using lock_invariantD [OF run_invariant [OF idle_invariant assms]]
  by blast

theorem send_action_exclusive_and_fifo_witness:
  "run [Call 1, Call 2, Acquire, Call 3, Return 1 Failure, Acquire] idle
     = Some \<lparr> locked = True, waiting = [3], in_flight = [2], returned = [(1, Failure)],
              arrived = [1, 2, 3], started = [1, 2] \<rparr>
   \<and> length [2::nat] \<le> 1
   \<and> [1, 2, 3] = [1, 2] @ [3::nat]
   \<and> [1, 2] = map fst [(1::nat, Failure)] @ [2]"
proof -
  have r: "run [Call 1, Call 2, Acquire, Call 3, Return 1 Failure, Acquire] idle
     = Some \<lparr> locked = True, waiting = [3], in_flight = [2], returned = [(1, Failure)],
              arrived = [1, 2, 3], started = [1, 2] \<rparr>"
    by (simp add: idle_def)
  show ?thesis
    using send_action_exclusive_and_fifo [OF r] r by simp
qed

text \<open>
  No waiting caller is stuck: from every reachable state there is a schedule after which
  its \<^verbatim>\<open>SendAction\<close> has started (the call in flight returns, and the line moves up).
\<close>

lemma run_append:
  "run (es @ es') s = (case run es s of None \<Rightarrow> None | Some s1 \<Rightarrow> run es' s1)"
  by (induction es arbitrary: s) (auto split: option.splits)

lemma head_is_served:
  assumes "lock_invariant s" and "waiting s = t # rest"
  shows "\<exists>es s'. run es s = Some s' \<and> waiting s' = rest \<and> t \<in> set (started s')"
proof (cases "locked s")
  case False
  with assms(2) have "run [Acquire] s
      = Some (s\<lparr>locked := True, waiting := rest, in_flight := t # in_flight s,
                 started := started s @ [t]\<rparr>)"
    by simp
  then show ?thesis by fastforce
next
  case True
  with assms(1) obtain u where u: "in_flight s = [u]"
    by (cases "in_flight s") (auto simp add: lock_invariant_def)
  with assms(2) have "run [Return u Success, Acquire] s
      = Some (s\<lparr>locked := True, waiting := rest, in_flight := [t],
                 returned := returned s @ [(u, Success)], started := started s @ [t]\<rparr>)"
    by simp
  then show ?thesis by fastforce
qed

lemma waiting_caller_is_served:
  assumes "lock_invariant s" and "waiting s = before @ t # after"
  shows "\<exists>es s'. run es s = Some s' \<and> t \<in> set (started s')"
  using assms
proof (induction before arbitrary: s)
  case Nil
  then have "waiting s = t # after" by simp
  from head_is_served [OF Nil.prems(1) this] show ?case by blast
next
  case (Cons u before)
  then have "waiting s = u # (before @ t # after)" by simp
  from head_is_served [OF Cons.prems(1) this]
  obtain es1 s1 where r1: "run es1 s = Some s1" and w1: "waiting s1 = before @ t # after"
    by blast
  from Cons.prems(1) r1 have "lock_invariant s1" by (rule run_invariant)
  from Cons.IH [OF this w1]
  obtain es2 s2 where r2: "run es2 s1 = Some s2" and t2: "t \<in> set (started s2)"
    by blast
  from r1 r2 have "run (es1 @ es2) s = Some s2" by (simp add: run_append)
  with t2 show ?case by blast
qed

end
